theory Spec2Isabelle
  imports Main "HOL-Library.AList"
begin

section \<open>The localization engine of YAMDBF (src/localization/Lang.ts)\<close>

text \<open>
  The development follows the second, current version of the class \<open>Lang\<close> (the one with
  \<open>_groupInfo\<close> and \<open>_meta\<close>). A JavaScript object used as a dictionary is the association
  list of its own properties; where the code reads such an object with \<open>obj[name]\<close>, the
  properties that every object inherits from \<open>Object.prototype\<close> are read as well
  (\<open>property_of\<close> below). Strings are lists of 8-bit characters.
\<close>

subsection \<open>JavaScript values and errors\<close>

text \<open>
  The values that reach \<open>res\<close> through the data bag or as the result of a script.
  \<open>Other s\<close> is any value that is neither \<open>undefined\<close> nor a string (a number,
  \<open>null\<close>, an object), kept by its \<open>ToString\<close> rendering \<open>s\<close>.
\<close>

datatype js_value = Undefined | Str string | Other string

fun to_str :: "js_value \<Rightarrow> string" where
  "to_str Undefined = ''undefined''"
| "to_str (Str s) = s"
| "to_str (Other s) = s"

text \<open>
  \<open>Error m\<close> is an error thrown by \<open>Lang\<close> itself, with its message; \<open>TypeError m\<close> is
  thrown by \<open>Lang\<close> or by the engine, on a call of something that is not a function or
  a read from \<open>undefined\<close>. \<open>ScriptSyntaxError m\<close> is what the \<open>Function\<close> constructor
  throws on a body that does not parse, \<open>RegExpSyntaxError m\<close> what the \<open>RegExp\<close>
  constructor throws on a source that is not a regular expression.
\<close>

datatype error =
  Error string | TypeError string | ScriptSyntaxError string | RegExpSyntaxError string

subsection \<open>Objects as dictionaries\<close>

text \<open>
  The names of the properties of \<open>Object.prototype\<close>. An object written \<open>{}\<close>, or made
  by \<open>require\<close> from a JSON file, inherits them: read with \<open>obj[name]\<close> they give a
  function (\<open>__proto__\<close> gives \<open>Object.prototype\<close> itself), which is neither \<open>undefined\<close>
  nor falsy.
\<close>

definition object_prototype_names :: "string list" where
  "object_prototype_names =
     [''constructor'', ''__defineGetter__'', ''__defineSetter__'', ''hasOwnProperty'',
      ''__lookupGetter__'', ''__lookupSetter__'', ''isPrototypeOf'', ''propertyIsEnumerable'',
      ''toString'', ''valueOf'', ''__proto__'', ''toLocaleString'']"

text \<open>What \<open>obj[name]\<close> finds: an own property, an inherited one, or nothing
  (\<open>undefined\<close>).\<close>

datatype 'a property = Own 'a | Inherited | Missing

definition property_of :: "(string \<times> 'a) list \<Rightarrow> string \<Rightarrow> 'a property" where
  "property_of obj name =
     (case map_of obj name of
        Some v \<Rightarrow> Own v
      | None \<Rightarrow> if name \<in> set object_prototype_names then Inherited else Missing)"

text \<open>An inherited property as a string, the way \<open>RegExp.prototype.test\<close> sees it.\<close>

definition inherited_text :: "string \<Rightarrow> string" where
  "inherited_text name =
     (if name = ''__proto__'' then ''[object Object]''
      else if name = ''constructor'' then ''function Object() { [native code] }''
      else ''function '' @ name @ ''() { [native code] }'')"

abbreviation LF :: char where "LF \<equiv> CHR 0x0A"
abbreviation CR :: char where "CR \<equiv> CHR 0x0D"
abbreviation TAB :: char where "TAB \<equiv> CHR 0x09"
abbreviation BSL :: char where "BSL \<equiv> CHR 0x5C"

subsection \<open>Regular expressions\<close>

text \<open>
  The fragment of JavaScript regular expressions that the literals of \<open>Lang.ts\<close> use.
  \<open>Star\<close> and \<open>Plus\<close> are the greedy quantifiers over a character class, \<open>Opt\<close> the
  greedy \<open>?\<close>, \<open>Bol\<close> is \<open>^\<close> under the \<open>m\<close> flag, \<open>Bos\<close> is \<open>^\<close> without it,
  \<open>Eos\<close> is \<open>$\<close> without the \<open>m\<close> flag, \<open>Grp n\<close> is the \<open>n\<close>-th capturing group.
\<close>

datatype rx =
    Lits string
  | Cls "char \<Rightarrow> bool"
  | Star "char \<Rightarrow> bool"
  | Plus "char \<Rightarrow> bool"
  | Opt rx
  | Seq rx rx
  | Alt rx rx
  | Grp nat rx
  | Bol
  | Bos
  | Eos

text \<open>
  A matcher state: the character before the current position (\<open>None\<close> at the start of
  the input), the rest of the input, and the captures made so far.
\<close>

type_synonym rx_state = "char option \<times> string \<times> (nat \<times> string) list"

definition line_start :: "char option \<Rightarrow> bool" where
  "line_start p = (case p of None \<Rightarrow> True | Some c \<Rightarrow> c = LF \<or> c = CR)"

fun last_of :: "char option \<Rightarrow> string \<Rightarrow> char option" where
  "last_of p [] = p"
| "last_of p (c # cs) = last_of (Some c) cs"

fun strip_prefix :: "string \<Rightarrow> string \<Rightarrow> string option" where
  "strip_prefix [] s = Some s"
| "strip_prefix (c # cs) [] = None"
| "strip_prefix (c # cs) (x # xs) = (if c = x then strip_prefix cs xs else None)"

text \<open>
  All the ways a greedy \<open>[class]*\<close> can match at the current position, longest first:
  the order in which a backtracking matcher tries them.
\<close>

fun star_results :: "(char \<Rightarrow> bool) \<Rightarrow> char option \<Rightarrow> string \<Rightarrow> (char option \<times> string) list" where
  "star_results f p [] = [(p, [])]"
| "star_results f p (x # xs) =
     (if f x then star_results f (Some x) xs @ [(p, x # xs)] else [(p, x # xs)])"

text \<open>
  \<open>rxm r st\<close> lists every way \<open>r\<close> can match at the state \<open>st\<close>, in the priority
  order of a backtracking matcher; the head of the list is the match JavaScript reports.
\<close>

fun rxm :: "rx \<Rightarrow> rx_state \<Rightarrow> rx_state list" where
  "rxm (Lits l) (p, s, c) =
     (case strip_prefix l s of None \<Rightarrow> [] | Some s' \<Rightarrow> [(last_of p l, s', c)])"
| "rxm (Cls f) (p, s, c) =
     (case s of [] \<Rightarrow> [] | x # xs \<Rightarrow> if f x then [(Some x, xs, c)] else [])"
| "rxm (Star f) (p, s, c) = map (\<lambda>(p', s'). (p', s', c)) (star_results f p s)"
| "rxm (Plus f) (p, s, c) =
     (case s of [] \<Rightarrow> []
      | x # xs \<Rightarrow> if f x then map (\<lambda>(p', s'). (p', s', c)) (star_results f (Some x) xs) else [])"
| "rxm (Opt r) st = rxm r st @ [st]"
| "rxm (Seq a b) st = concat (map (rxm b) (rxm a st))"
| "rxm (Alt a b) st = rxm a st @ rxm b st"
| "rxm (Grp n r) (p, s, c) =
     map (\<lambda>(p', s', c'). (p', s', (n, take (length s - length s') s) # c')) (rxm r (p, s, c))"
| "rxm Bol (p, s, c) = (if line_start p then [(p, s, c)] else [])"
| "rxm Bos (p, s, c) = (if p = None then [(p, s, c)] else [])"
| "rxm Eos (p, s, c) = (if s = [] then [(p, s, c)] else [])"

text \<open>One match: the matched text and its captures.\<close>

record rx_match =
  matched :: string
  groups :: "(nat \<times> string) list"

text \<open>
  The scan of a global regular expression over a string, as \<open>String.prototype.replace\<close>
  and \<open>String.prototype.match\<close> do it: at each position the expression is tried; a
  match is reported and the scan resumes where it ended (one character further after an
  empty match), otherwise the character is passed over. The second argument counts
  the characters of the input still covered by the last match.
\<close>

fun rx_scan :: "rx \<Rightarrow> nat \<Rightarrow> char option \<Rightarrow> string \<Rightarrow> (char + rx_match) list" where
  "rx_scan r (Suc k) p [] = []"
| "rx_scan r (Suc k) p (x # xs) = rx_scan r k (Some x) xs"
| "rx_scan r 0 p [] =
     (case rxm r (p, [], []) of [] \<Rightarrow> []
      | (p', s', c) # _ \<Rightarrow> [Inr \<lparr>matched = [], groups = c\<rparr>])"
| "rx_scan r 0 p (x # xs) =
     (case rxm r (p, x # xs, []) of
        [] \<Rightarrow> Inl x # rx_scan r 0 (Some x) xs
      | (p', s', c) # _ \<Rightarrow>
          (let n = length (x # xs) - length s' in
           if n = 0 then Inr \<lparr>matched = [], groups = c\<rparr> # Inl x # rx_scan r 0 (Some x) xs
           else Inr \<lparr>matched = take n (x # xs), groups = c\<rparr> # rx_scan r (n - 1) (Some x) xs))"

fun scan_matches :: "(char + rx_match) list \<Rightarrow> rx_match list" where
  "scan_matches [] = []"
| "scan_matches (Inl c # ts) = scan_matches ts"
| "scan_matches (Inr m # ts) = m # scan_matches ts"

text \<open>\<open>regex.exec(s)\<close> and \<open>s.match(regex)\<close> without the \<open>g\<close> flag: the leftmost match.\<close>

definition rx_exec :: "rx \<Rightarrow> string \<Rightarrow> rx_match option" where
  "rx_exec r s = (case scan_matches (rx_scan r 0 None s) of [] \<Rightarrow> None | m # _ \<Rightarrow> Some m)"

text \<open>\<open>regex.test(s)\<close> on a regular expression whose \<open>lastIndex\<close> is 0.\<close>

definition rx_test :: "rx \<Rightarrow> string \<Rightarrow> bool" where
  "rx_test r s = (rx_exec r s \<noteq> None)"

text \<open>\<open>s.match(regex)\<close> with the \<open>g\<close> flag: the texts of all matches, in order.\<close>

definition rx_match_all :: "rx \<Rightarrow> string \<Rightarrow> string list" where
  "rx_match_all r s = map matched (scan_matches (rx_scan r 0 None s))"

text \<open>\<open>s.replace(regex, rep)\<close> with the \<open>g\<close> flag, \<open>rep\<close> without \<open>$\<close> patterns.\<close>

definition rx_replace_all :: "rx \<Rightarrow> string \<Rightarrow> string \<Rightarrow> string" where
  "rx_replace_all r rep s =
     concat (map (\<lambda>t. case t of Inl c \<Rightarrow> [c] | Inr m \<Rightarrow> rep) (rx_scan r 0 None s))"

text \<open>\<open>s.replace(regex, rep)\<close> without the \<open>g\<close> flag: only the leftmost match.\<close>

fun replace_first_token :: "string \<Rightarrow> (char + rx_match) list \<Rightarrow> string" where
  "replace_first_token rep [] = []"
| "replace_first_token rep (Inl c # ts) = c # replace_first_token rep ts"
| "replace_first_token rep (Inr m # ts) =
     rep @ concat (map (\<lambda>t. case t of Inl c \<Rightarrow> [c] | Inr m' \<Rightarrow> matched m') ts)"

definition rx_replace_first :: "rx \<Rightarrow> string \<Rightarrow> string \<Rightarrow> string" where
  "rx_replace_first r rep s = replace_first_token rep (rx_scan r 0 None s)"

text \<open>
  \<open>s.replace(pat, () => rep)\<close> with a string pattern: the first occurrence of \<open>pat\<close>
  is replaced, and \<open>rep\<close> is taken as it is.
\<close>

fun str_replace_first :: "string \<Rightarrow> string \<Rightarrow> string \<Rightarrow> string" where
  "str_replace_first pat rep [] = (if pat = [] then rep else [])"
| "str_replace_first pat rep (x # xs) =
     (case strip_prefix pat (x # xs) of
        Some rest \<Rightarrow> rep @ rest
      | None \<Rightarrow> x # str_replace_first pat rep xs)"

subsection \<open>The regular expressions of \<open>Lang.res\<close>\<close>

fun seqs :: "rx list \<Rightarrow> rx" where
  "seqs [] = Lits []"
| "seqs [r] = r"
| "seqs (r # rs) = Seq r (seqs rs)"

definition space :: "char \<Rightarrow> bool" where
  "space c = (c = CHR '' '')"

definition tab_or_space :: "char \<Rightarrow> bool" where
  "tab_or_space c = (c = TAB \<or> c = CHR '' '')"

definition letter :: "char \<Rightarrow> bool" where
  "letter c = (c \<in> set (''abcdefghijklmnopqrstuvwxyz'' @ ''ABCDEFGHIJKLMNOPQRSTUVWXYZ''))"

text \<open>\<open>[\s\S]\<close>: every character.\<close>

definition any_char :: "char \<Rightarrow> bool" where
  "any_char c = True"

text \<open>\<open>\s\<close>, on 8-bit characters: tab, line feed, vertical tab, form feed, carriage
  return, space and no-break space.\<close>

definition white_space :: "char \<Rightarrow> bool" where
  "white_space c = (c \<in> set [TAB, LF, CHR 0x0B, CHR 0x0C, CR, CHR '' '', CHR 0xA0])"

text \<open>\<open>/^{{ *[a-zA-Z]+ *\?}}[\t ]*\n|{{ *[a-zA-Z]+ *\?}}/gm\<close>\<close>

definition maybeTemplates :: rx where
  "maybeTemplates =
     Alt (seqs [Bol, Lits ''{{'', Star space, Plus letter, Star space, Lits ''?}}'',
                Star tab_or_space, Lits [LF]])
         (seqs [Lits ''{{'', Star space, Plus letter, Star space, Lits ''?}}''])"

text \<open>\<open>/^{{!([\s\S]+)!}}[\t ]*\n|{{!([\s\S]+)!}}/m\<close>; \<open>scriptTemplates\<close> is the same
  expression with the flags \<open>gm\<close>.\<close>

definition scriptTemplate :: rx where
  "scriptTemplate =
     Alt (seqs [Bol, Lits ''{{!'', Grp 1 (Plus any_char), Lits ''!}}'', Star tab_or_space, Lits [LF]])
         (seqs [Lits ''{{!'', Grp 2 (Plus any_char), Lits ''!}}''])"

text \<open>\<open>/^{{!([\s\S]+)!}}[\t ]*\n/\<close>, the test made on each piece of script text.\<close>

definition scriptOwnLine :: rx where
  "scriptOwnLine =
     seqs [Bos, Lits ''{{!'', Grp 1 (Plus any_char), Lits ''!}}'', Star tab_or_space, Lits [LF]]"

text \<open>\<open>/^[\s]+/\<close> and \<open>/\\n/g\<close>.\<close>

definition leadingSpace :: rx where
  "leadingSpace = Seq Bos (Plus white_space)"

definition escapedNewline :: rx where
  "escapedNewline = Lits [BSL, CHR ''n'']"

text \<open>
  The two expressions built from a key of the data bag,
  \<open>new RegExp(`{{ *${template} *\\?}}`, 'g')\<close> and
  \<open>new RegExp(`{{ *${template} *\\??}}`, 'g')\<close>. The key is spliced into the source of
  the expression. A key without metacharacters (\<open>plain_key\<close>) stands for itself there,
  and the expression is \<open>maybe_key\<close> or \<open>any_key\<close>. For any other key the expression is
  whatever the \<open>RegExp\<close> constructor makes of the source: that constructor is a
  parameter, which gives the compiled expression by what its \<open>test\<close> answers and what
  \<open>replace\<close> with it returns, or the message of the SyntaxError it throws.
\<close>

definition plain_key :: "string \<Rightarrow> bool" where
  "plain_key k = list_all (\<lambda>c. c \<notin> set (''^$.*+?()[]{}|'' @ [BSL])) k"

definition maybe_key :: "string \<Rightarrow> rx" where
  "maybe_key template = seqs [Lits ''{{'', Star space, Lits template, Star space, Lits ''?}}'']"

definition any_key :: "string \<Rightarrow> rx" where
  "any_key template =
     seqs [Lits ''{{'', Star space, Lits template, Star space, Opt (Lits ''?''), Lits ''}}'']"

text \<open>A compiled expression with the \<open>g\<close> flag, fresh from its constructor:
  \<open>re_test r s\<close> is \<open>r.test(s)\<close>, \<open>re_replace r rep s\<close> is \<open>s.replace(r, () => rep)\<close>.\<close>

record regexp =
  re_test :: "string \<Rightarrow> bool"
  re_replace :: "string \<Rightarrow> string \<Rightarrow> string"

definition regexp_of :: "rx \<Rightarrow> regexp" where
  "regexp_of r = \<lparr>re_test = rx_test r, re_replace = rx_replace_all r\<rparr>"

type_synonym regexp_engine = "string \<Rightarrow> string + regexp"

definition maybe_regexp :: "regexp_engine \<Rightarrow> string \<Rightarrow> string + regexp" where
  "maybe_regexp re template =
     (if plain_key template then Inr (regexp_of (maybe_key template))
      else re (''{{ *'' @ template @ '' *'' @ [BSL] @ ''?}}''))"

definition any_regexp :: "regexp_engine \<Rightarrow> string \<Rightarrow> string + regexp" where
  "any_regexp re template =
     (if plain_key template then Inr (regexp_of (any_key template))
      else re (''{{ *'' @ template @ '' *'' @ [BSL] @ ''??}}''))"

subsection \<open>The state of the singleton\<close>

text \<open>
  Modelled from the spec: the class \<open>Language\<close> (src/localization/Language.ts is not
  among the sources). A language table is the identifier of the language and an
  ordered mapping from string keys to raw template text, which \<open>res\<close> takes as a plain
  object (\<open>{ [key: string]: string }\<close>).
\<close>

record Language =
  lang_name :: string
  strings :: "(string \<times> string) list"

text \<open>
  Modelled from the spec: \<open>Language.concat\<close>, which merges a fragment into the table
  it is called on. The table is the union of the fragments merged into it, and on a
  key that both define the most recently merged value wins.
\<close>

definition concat_language :: "Language \<Rightarrow> Language \<Rightarrow> Language" where
  "concat_language a b = a\<lparr>strings := AList.merge (strings a) (strings b)\<rparr>"

text \<open>
  The three helptext fields; a field that is absent or \<open>undefined\<close> is \<open>None\<close>. A
  \<open>Command\<close> carries its own three (its compiled-in defaults) besides its name; the
  rest of the class plays no part here.
\<close>

record LocalizedCommandInfo =
  desc :: "string option"
  info :: "string option"
  usage :: "string option"

record Command = LocalizedCommandInfo +
  name :: string

text \<open>
  What \<open>Lang\<close> reads of the client: the two directories, the names of the disabled base
  commands, and for each registered command whether it is disabled.
\<close>

record Client =
  localeDir :: "string option"
  commandsDir :: "string option"
  disableBase :: "string list"
  commands :: "(string \<times> bool) list"

text \<open>The private fields \<open>_client\<close>, \<open>_commandInfo\<close>, \<open>_groupInfo\<close>, \<open>_langs\<close>, \<open>_meta\<close>.\<close>

record Lang =
  p_client :: Client
  p_commandInfo :: "(string \<times> (string \<times> LocalizedCommandInfo) list) list"
  p_groupInfo :: "(string \<times> (string \<times> string) list) list"
  p_langs :: "(string \<times> Language) list"
  p_meta :: "(string \<times> (string \<times> js_value) list) list"

text \<open>The static field \<open>Lang._instance\<close>: \<open>None\<close> until the instance is created.\<close>

type_synonym lang_instance = "Lang option"

definition not_created :: error where
  "not_created = Error ''Lang singleton instance has not been created''"

text \<open>The private constructor, with \<open>Lang._instance\<close> as it stands when it runs.\<close>

definition new_Lang :: "lang_instance \<Rightarrow> Client \<Rightarrow> error + Lang" where
  "new_Lang inst client =
     (case inst of
        Some l \<Rightarrow> Inl (Error (''Cannot create multiple instances of Lang singleton. '' @
                               ''Use Lang.createInstance() instead''))
      | None \<Rightarrow> Inr \<lparr>p_client = client, p_commandInfo = [], p_groupInfo = [],
                     p_langs = [], p_meta = []\<rparr>)"

definition createInstance :: "lang_instance \<Rightarrow> Client \<Rightarrow> error + lang_instance" where
  "createInstance inst client =
     (case inst of
        None \<Rightarrow> (case new_Lang inst client of Inl e \<Rightarrow> Inl e | Inr l \<Rightarrow> Inr (Some l))
      | Some l \<Rightarrow> Inr inst)"

text \<open>The static getter \<open>Lang.langs\<close>.\<close>

definition langs :: "lang_instance \<Rightarrow> error + (string \<times> Language) list" where
  "langs inst = (case inst of None \<Rightarrow> Inl not_created | Some l \<Rightarrow> Inr (p_langs l))"

subsection \<open>\<open>Lang.res\<close>\<close>

type_synonym TemplateData = "(string \<times> js_value) list"

text \<open>
  The JavaScript engine is a parameter: \<open>js body data\<close> is what
  \<open>new Function('args', 'res', body)(data, res)\<close> does. \<open>SyntaxErr\<close>: the constructor
  rejects the body; \<open>Throws e\<close>: the call throws a value rendered as \<open>e\<close>; \<open>Returns v\<close>:
  the call returns \<open>v\<close> (\<open>Undefined\<close> when it ends without a \<open>return\<close>). The resource
  loader \<open>res\<close> handed to the script is part of that parameter.
\<close>

datatype outcome = SyntaxErr string | Throws string | Returns js_value

type_synonym js_engine = "string \<Rightarrow> TemplateData \<Rightarrow> outcome"

text \<open>The loop over \<open>Object.keys(data)\<close>.\<close>

fun substitute :: "regexp_engine \<Rightarrow> TemplateData \<Rightarrow> string \<Rightarrow> error + string" where
  "substitute re [] loadedString = Inr loadedString"
| "substitute re ((template, v) # rest) loadedString =
     (case maybe_regexp re template of
        Inl e \<Rightarrow> Inl (RegExpSyntaxError e)
      | Inr maybe \<Rightarrow>
          if re_test maybe loadedString \<and> (v = Str [] \<or> v = Undefined)
          then substitute re rest loadedString
          else (case any_regexp re template of
                  Inl e \<Rightarrow> Inl (RegExpSyntaxError e)
                | Inr any \<Rightarrow> substitute re rest (re_replace any (to_str v) loadedString)))"

text \<open>
  The same loop and what follows it when \<open>strings[key]\<close> is an inherited property and
  not a string: \<open>test\<close> takes the value as the string \<open>text\<close>, and the first call of
  \<open>loadedString.replace\<close> or \<open>loadedString.match\<close> throws, since the value has no such
  method. The result is the error that leaves \<open>res\<close>.
\<close>

fun substitute_inherited :: "regexp_engine \<Rightarrow> TemplateData \<Rightarrow> string \<Rightarrow> error" where
  "substitute_inherited re [] text =
     TypeError (if rx_test scriptTemplate text then ''loadedString.match is not a function''
                else ''loadedString.replace is not a function'')"
| "substitute_inherited re ((template, v) # rest) text =
     (case maybe_regexp re template of
        Inl e \<Rightarrow> RegExpSyntaxError e
      | Inr maybe \<Rightarrow>
          if re_test maybe text \<and> (v = Str [] \<or> v = Undefined)
          then substitute_inherited re rest text
          else (case any_regexp re template of
                  Inl e \<Rightarrow> RegExpSyntaxError e
                | Inr any \<Rightarrow> TypeError ''loadedString.replace is not a function''))"

text \<open>\<open>scriptData.match(scriptTemplate)[1] || scriptData.match(scriptTemplate)[2]\<close>\<close>

definition functionBody :: "string \<Rightarrow> error + string" where
  "functionBody scriptData =
     (case rx_exec scriptTemplate scriptData of
        None \<Rightarrow> Inl (TypeError ''Cannot read properties of null'')
      | Some m \<Rightarrow>
          (case map_of (groups m) 1 of
             Some (c # cs) \<Rightarrow> Inr (c # cs)
           | _ \<Rightarrow> (case map_of (groups m) 2 of Some b \<Rightarrow> Inr b | None \<Rightarrow> Inr ''undefined'')))"

text \<open>The second try, \<open>return\<close> put before the body; whatever it throws is dropped.\<close>

definition implicit_return :: "js_engine \<Rightarrow> TemplateData \<Rightarrow> string \<Rightarrow> js_value" where
  "implicit_return js data body =
     (case js (''return '' @ rx_replace_first leadingSpace [] body) data of
        Returns v \<Rightarrow> v
      | _ \<Rightarrow> Undefined)"

text \<open>The loop over \<open>loadedString.match(scriptTemplates)\<close>.\<close>

fun run_scripts ::
  "js_engine \<Rightarrow> string \<Rightarrow> string \<Rightarrow> TemplateData \<Rightarrow> string \<Rightarrow> string list \<Rightarrow> error + string"
where
  "run_scripts js lang key data loadedString [] = Inr loadedString"
| "run_scripts js lang key data loadedString (scriptData # rest) =
     (case functionBody scriptData of
        Inl e \<Rightarrow> Inl e
      | Inr body \<Rightarrow>
          (case js body data of
             SyntaxErr e \<Rightarrow> Inl (ScriptSyntaxError e)
           | Throws e \<Rightarrow>
               Inl (Error (''in embedded localization script for: '' @ lang @ ''::'' @ key @
                           [LF] @ e))
           | Returns v \<Rightarrow>
               (let result = (if v = Undefined then implicit_return js data body else v) in
                if rx_test scriptOwnLine scriptData \<and> result \<noteq> Str []
                then run_scripts js lang key data
                       (str_replace_first scriptData (to_str result @ [LF]) loadedString) rest
                else run_scripts js lang key data
                       (str_replace_first scriptData (to_str result) loadedString) rest)))"

definition sentinel :: "string \<Rightarrow> string \<Rightarrow> string" where
  "sentinel lang key = lang @ ''::'' @ key"

definition scripts :: "js_engine \<Rightarrow> string \<Rightarrow> string \<Rightarrow> TemplateData \<Rightarrow> string \<Rightarrow> error + string" where
  "scripts js lang key data loadedString =
     (if rx_test scriptTemplate loadedString
      then run_scripts js lang key data loadedString (rx_match_all scriptTemplate loadedString)
      else Inr loadedString)"

definition cleanup :: "string \<Rightarrow> string" where
  "cleanup loadedString =
     rx_replace_all escapedNewline [LF] (rx_replace_all maybeTemplates [] loadedString)"

text \<open>
  \<open>res\<close> itself. The parameter \<open>data\<close> defaults to \<open>{}\<close>, which is \<open>[]\<close> here, so the
  test \<open>typeof data === 'undefined'\<close> never holds and has no branch. \<open>Lang.langs\<close> is
  the object \<open>{}\<close> of the constructor and \<open>strings\<close> a plain table, so both reads see
  the inherited properties. An inherited \<open>Lang.langs[lang]\<close> passes the first guard,
  has no \<open>strings\<close>, and the read \<open>strings[key]\<close> of \<open>undefined\<close> throws. An inherited
  \<open>strings[key]\<close> passes the second guard and is used as if it were a string.
\<close>

definition res ::
  "js_engine \<Rightarrow> regexp_engine \<Rightarrow> lang_instance \<Rightarrow> string \<Rightarrow> string \<Rightarrow> TemplateData \<Rightarrow> error + string"
where
  "res js re inst lang key data =
     (case langs inst of
        Inl e \<Rightarrow> Inl e
      | Inr ls \<Rightarrow>
          (case property_of ls lang of
             Missing \<Rightarrow> Inr (sentinel lang key)
           | Inherited \<Rightarrow>
               Inl (TypeError (''Cannot read properties of undefined (reading '' @ [CHR 0x27] @ key @
                               [CHR 0x27] @ '')''))
           | Own language \<Rightarrow>
               (case property_of (strings language) key of
                  Missing \<Rightarrow> Inr (sentinel lang key)
                | Inherited \<Rightarrow> Inl (substitute_inherited re data (inherited_text key))
                | Own loadedString \<Rightarrow>
                    if loadedString = [] then Inr (sentinel lang key)
                    else (case substitute re data loadedString of
                            Inl e \<Rightarrow> Inl e
                          | Inr substituted \<Rightarrow>
                              (case scripts js lang key data substituted of
                                 Inl e \<Rightarrow> Inl e
                               | Inr evaluated \<Rightarrow> Inr (cleanup evaluated))))))"

subsection \<open>Nested tables\<close>

text \<open>
  Modelled from the spec: \<open>Util.getNestedValue\<close> (src/util/Util.ts is not among the
  sources), at the depth two of every table here: reading an absent path gives no
  value and never throws.
\<close>

definition getNestedValue :: "(string \<times> (string \<times> 'v) list) list \<Rightarrow> string \<Rightarrow> string \<Rightarrow> 'v option" where
  "getNestedValue tbl a b = (case map_of tbl a of None \<Rightarrow> None | Some inner \<Rightarrow> map_of inner b)"

text \<open>
  Modelled from the spec: \<open>Util.assignNestedValue\<close>, at the same depth: the value is
  stored under the outer and the inner key, and the inner table is created when it is
  missing.
\<close>

definition assignNestedValue ::
  "(string \<times> (string \<times> 'v) list) list \<Rightarrow> string \<Rightarrow> string \<Rightarrow> 'v \<Rightarrow> (string \<times> (string \<times> 'v) list) list"
where
  "assignNestedValue tbl a b v =
     AList.update a (AList.update b v (case map_of tbl a of None \<Rightarrow> [] | Some inner \<Rightarrow> inner)) tbl"

subsection \<open>\<open>Lang.getCommandInfo\<close>\<close>

text \<open>
  The argument \<open>command\<close> as the two guards see it: a falsy value, a value that is not
  an instance of \<open>Command\<close>, or a command.
\<close>

datatype command_arg = NoCommand | NotACommand | ACommand Command

text \<open>JavaScript's \<open>a || b\<close> on strings that may be \<open>undefined\<close>: \<open>undefined\<close> and the
  empty string are falsy.\<close>

definition or_else :: "string option \<Rightarrow> string option \<Rightarrow> string option" where
  "or_else a b = (if a = None \<or> a = Some [] then b else a)"

text \<open>The path of length three, \<open>[command.name, lang, field]\<close>.\<close>

definition localized_field ::
  "Lang \<Rightarrow> string \<Rightarrow> string \<Rightarrow> (LocalizedCommandInfo \<Rightarrow> string option) \<Rightarrow> string option"
where
  "localized_field l cmd lang field =
     (case getNestedValue (p_commandInfo l) cmd lang of None \<Rightarrow> None | Some i \<Rightarrow> field i)"

definition getCommandInfo :: "lang_instance \<Rightarrow> command_arg \<Rightarrow> string \<Rightarrow> error + LocalizedCommandInfo" where
  "getCommandInfo inst command lang =
     (case inst of
        None \<Rightarrow> Inl not_created
      | Some l \<Rightarrow>
          (case command of
             NoCommand \<Rightarrow> Inl (Error ''A Command must be given for which to get Command info'')
           | NotACommand \<Rightarrow> Inl (TypeError ''command must be an instance of Command class'')
           | ACommand cmd \<Rightarrow>
               Inr \<lparr>desc = or_else (localized_field l (name cmd) lang desc) (desc cmd),
                    info = or_else (localized_field l (name cmd) lang info) (info cmd),
                    usage = or_else (localized_field l (name cmd) lang usage) (usage cmd)\<rparr>))"

subsection \<open>The loaders\<close>

text \<open>
  What the loaders take from outside: \<open>glob.sync\<close>, \<open>path.resolve\<close>,
  \<open>fs.readFileSync(f).toString()\<close>, \<open>require\<close> at the two types the loaders give its
  result (\<open>Inl\<close> when it throws, with the rendering of what it threw), the directory
  \<open>path.join(__dirname, './en_us')\<close>, and \<open>LangFileParser.parseFile\<close>, which is not
  among the sources.
\<close>

record environment =
  glob_sync :: "string \<Rightarrow> string list"
  path_resolve :: "string \<Rightarrow> string"
  readFileSync :: "string \<Rightarrow> string"
  require_commands :: "string \<Rightarrow> string + (string \<times> (string \<times> LocalizedCommandInfo) list) list"
  require_groups :: "string \<Rightarrow> string + (string \<times> (string \<times> string) list) list"
  en_us_dir :: string
  parseFile :: "string \<Rightarrow> string \<Rightarrow> Language"

text \<open>The static getter \<open>Lang.langNames\<close>, on an existing instance.\<close>

definition langNames :: "Lang \<Rightarrow> string list" where
  "langNames l =
     remdups (concat (map (\<lambda>(commandName, byLang). map fst byLang) (p_commandInfo l)) @
              map fst (p_langs l))"

text \<open>\<open>postLoad\<close>: with more than one language, a disabled \<open>setlang\<close> command that is
  not among the disabled base commands is enabled.\<close>

definition postLoad :: "Lang \<Rightarrow> Lang" where
  "postLoad l =
     (let c = p_client l in
      if length (langNames l) > 1 \<and> ''setlang'' \<notin> set (disableBase c) \<and>
         map_of (commands c) ''setlang'' = Some True
      then l\<lparr>p_client := c\<lparr>commands := AList.update ''setlang'' False (commands c)\<rparr>\<rparr>
      else l)"

text \<open>\<open>/\/([^\/\.]+)(?:\.[^\/]+)?\.lang$/\<close>\<close>

definition langNameRegex :: rx where
  "langNameRegex =
     seqs [Lits ''/'', Grp 1 (Plus (\<lambda>c. c \<noteq> CHR ''/'' \<and> c \<noteq> CHR ''.'')),
           Opt (Seq (Lits ''.'') (Plus (\<lambda>c. c \<noteq> CHR ''/''))), Lits ''.lang'', Eos]"

text \<open>\<open>langFile.match(langNameRegex)[1]\<close>, \<open>None\<close> when the test of the expression fails.\<close>

definition langNameOf :: "string \<Rightarrow> string option" where
  "langNameOf langFile =
     (case rx_exec langNameRegex langFile of None \<Rightarrow> None | Some m \<Rightarrow> map_of (groups m) 1)"

text \<open>
  The first loop of \<open>loadLocalizationsFrom\<close>: the files of each language, in the
  order of discovery. The table \<open>langs\<close> is an object \<open>{}\<close>: for a language named as an
  inherited property, \<open>!langs[langName]\<close> is false, \<open>langs[langName]\<close> is not an array and
  the call of \<open>push\<close> throws.
\<close>

fun group_by_lang ::
  "string list \<Rightarrow> (string \<times> string list) list \<Rightarrow> error + (string \<times> string list) list"
where
  "group_by_lang [] acc = Inr acc"
| "group_by_lang (langFile # rest) acc =
     (case langNameOf langFile of
        None \<Rightarrow> group_by_lang rest acc
      | Some langName \<Rightarrow>
          (case property_of acc langName of
             Missing \<Rightarrow> group_by_lang rest (AList.update langName [langFile] acc)
           | Own fs \<Rightarrow> group_by_lang rest (AList.update langName (fs @ [langFile]) acc)
           | Inherited \<Rightarrow> Inl (TypeError ''langs[langName].push is not a function'')))"

text \<open>
  The inner loop: the files of one language are read, parsed and merged. An inherited
  \<open>Lang._instance._langs[langName]\<close> is not \<open>undefined\<close> and has no \<open>concat\<close>.
\<close>

fun merge_files ::
  "environment \<Rightarrow> string \<Rightarrow> string list \<Rightarrow> (string \<times> Language) list \<Rightarrow>
     error + (string \<times> Language) list"
where
  "merge_files env langName [] ls = Inr ls"
| "merge_files env langName (langFile # rest) ls =
     (if langNameOf langFile = None then merge_files env langName rest ls
      else
        (let loadedLangFile = rx_replace_all (Lits [CR, LF]) [LF] (readFileSync env langFile);
             parsedLanguageFile = parseFile env langName loadedLangFile
         in case property_of ls langName of
              Own existing \<Rightarrow>
                merge_files env langName rest
                  (AList.update langName (concat_language existing parsedLanguageFile) ls)
            | Missing \<Rightarrow> merge_files env langName rest (AList.update langName parsedLanguageFile ls)
            | Inherited \<Rightarrow>
                Inl (TypeError ''Lang._instance._langs[langName].concat is not a function'')))"

text \<open>The outer loop, over \<open>Object.keys(langs)\<close>, taken in the order in which the
  languages were first met. (\<open>Object.keys\<close> puts names that are array indices first;
  each language is merged into its own entry of the store, so the order of the
  languages changes no entry.)\<close>

fun merge_langs ::
  "environment \<Rightarrow> (string \<times> string list) list \<Rightarrow> (string \<times> Language) list \<Rightarrow>
     error + (string \<times> Language) list"
where
  "merge_langs env [] ls = Inr ls"
| "merge_langs env ((langName, files) # rest) ls =
     (case merge_files env langName files ls of
        Inl e \<Rightarrow> Inl e
      | Inr ls' \<Rightarrow> merge_langs env rest ls')"

definition loadLocalizationsFrom :: "environment \<Rightarrow> lang_instance \<Rightarrow> string \<Rightarrow> error + lang_instance" where
  "loadLocalizationsFrom env inst dir =
     (case inst of
        None \<Rightarrow> Inl not_created
      | Some l \<Rightarrow>
          (let dir' = path_resolve env dir;
               allLangFiles = glob_sync env (dir' @ ''/**/*.lang'')
           in if allLangFiles = []
              then Inl (Error (''Failed to find any localization files in: '' @ dir'))
              else (case group_by_lang allLangFiles [] of
                      Inl e \<Rightarrow> Inl e
                    | Inr byLang \<Rightarrow>
                        (case merge_langs env byLang (p_langs l) of
                           Inl e \<Rightarrow> Inl e
                         | Inr ls \<Rightarrow> Inr (Some (postLoad (l\<lparr>p_langs := ls\<rparr>)))))))"

text \<open>Whether a path ends in \<open>commandgroups.lang.json\<close>: the test of
  \<open>/commandgroups\.lang\.json$/\<close>.\<close>

definition reserved_groups_file :: "string \<Rightarrow> bool" where
  "reserved_groups_file langFile = rx_test (Seq (Lits ''commandgroups.lang.json'') Eos) langFile"

text \<open>The spread \<open>{ ...old, ...new }\<close> of two records of helptext: a field of \<open>new\<close>
  that is present replaces the one of \<open>old\<close>.\<close>

definition spread_info :: "LocalizedCommandInfo \<Rightarrow> LocalizedCommandInfo \<Rightarrow> LocalizedCommandInfo" where
  "spread_info old new =
     \<lparr>desc = (case desc new of None \<Rightarrow> desc old | Some v \<Rightarrow> Some v),
      info = (case info new of None \<Rightarrow> info old | Some v \<Rightarrow> Some v),
      usage = (case usage new of None \<Rightarrow> usage old | Some v \<Rightarrow> Some v)\<rparr>"

definition empty_info :: LocalizedCommandInfo where
  "empty_info = \<lparr>desc = None, info = None, usage = None\<rparr>"

type_synonym command_table = "(string \<times> (string \<times> LocalizedCommandInfo) list) list"

text \<open>The two inner loops of \<open>loadCommandLocalizationsFrom\<close>, over the languages of a
  command and over the commands of a file.\<close>

fun merge_command_langs :: "string \<Rightarrow> (string \<times> LocalizedCommandInfo) list \<Rightarrow> command_table \<Rightarrow> command_table" where
  "merge_command_langs command [] tbl = tbl"
| "merge_command_langs command ((lang, i) # rest) tbl =
     (let tbl' = (if getNestedValue tbl command lang = None
                  then assignNestedValue tbl command lang empty_info else tbl);
          old = (case getNestedValue tbl' command lang of None \<Rightarrow> empty_info | Some j \<Rightarrow> j)
      in merge_command_langs command rest (assignNestedValue tbl' command lang (spread_info old i)))"

fun merge_commands :: "command_table \<Rightarrow> command_table \<Rightarrow> command_table" where
  "merge_commands [] tbl = tbl"
| "merge_commands ((command, byLang) # rest) tbl =
     merge_commands rest (merge_command_langs command byLang tbl)"

text \<open>The loop over \<open>allLangFiles\<close>; a file that \<open>require\<close> cannot load is passed over.\<close>

fun load_command_files :: "environment \<Rightarrow> string list \<Rightarrow> command_table \<Rightarrow> command_table" where
  "load_command_files env [] tbl = tbl"
| "load_command_files env (langFile # rest) tbl =
     (if reserved_groups_file langFile then load_command_files env rest tbl
      else case require_commands env langFile of
             Inl err \<Rightarrow> load_command_files env rest tbl
           | Inr localizations \<Rightarrow> load_command_files env rest (merge_commands localizations tbl))"

definition loadCommandLocalizationsFrom :: "environment \<Rightarrow> lang_instance \<Rightarrow> string \<Rightarrow> error + lang_instance" where
  "loadCommandLocalizationsFrom env inst dir =
     (case inst of
        None \<Rightarrow> Inl not_created
      | Some l \<Rightarrow>
          (let allLangFiles = glob_sync env (path_resolve env dir @ ''/**/*.lang.json'')
           in if allLangFiles = [] then Inr (Some l)
              else Inr (Some (postLoad
                     (l\<lparr>p_commandInfo := load_command_files env allLangFiles (p_commandInfo l)\<rparr>)))))"

type_synonym group_table = "(string \<times> (string \<times> string) list) list"

fun assign_group_langs :: "string \<Rightarrow> (string \<times> string) list \<Rightarrow> group_table \<Rightarrow> group_table" where
  "assign_group_langs grp [] tbl = tbl"
| "assign_group_langs grp ((lang, d) # rest) tbl =
     assign_group_langs grp rest (assignNestedValue tbl grp lang d)"

fun assign_groups :: "group_table \<Rightarrow> group_table \<Rightarrow> group_table" where
  "assign_groups [] tbl = tbl"
| "assign_groups ((grp, byLang) # rest) tbl = assign_groups rest (assign_group_langs grp byLang tbl)"

definition loadGroupLocalizationsFrom :: "environment \<Rightarrow> lang_instance \<Rightarrow> string \<Rightarrow> error + lang_instance" where
  "loadGroupLocalizationsFrom env inst dir =
     (case inst of
        None \<Rightarrow> Inl not_created
      | Some l \<Rightarrow>
          (case glob_sync env (path_resolve env dir @ ''/**/commandgroups.lang.json'') of
             [] \<Rightarrow> Inr (Some l)
           | filePath # others \<Rightarrow>
               (case require_groups env filePath of
                  Inl stack \<Rightarrow>
                    Inl (Error (''Failed to load group localizations from '' @ [CHR 0x27] @ filePath @
                                '':'' @ [LF] @ stack))
                | Inr groupInfo \<Rightarrow> Inr (Some (l\<lparr>p_groupInfo := assign_groups groupInfo (p_groupInfo l)\<rparr>)))))"

text \<open>\<open>loadCommandLocalizations\<close>: the group descriptions shipped with the framework,
  then the helptext and the group descriptions of the client's \<open>commandsDir\<close>.\<close>

definition loadCommandLocalizations :: "environment \<Rightarrow> lang_instance \<Rightarrow> error + lang_instance" where
  "loadCommandLocalizations env inst =
     (case inst of
        None \<Rightarrow> Inl not_created
      | Some l0 \<Rightarrow>
          (case loadGroupLocalizationsFrom env inst (en_us_dir env) of
             Inl e \<Rightarrow> Inl e
           | Inr inst1 \<Rightarrow>
               (case commandsDir (p_client l0) of
                  Some (c # cs) \<Rightarrow>
                    (case loadCommandLocalizationsFrom env inst1 (c # cs) of
                       Inl e \<Rightarrow> Inl e
                     | Inr inst2 \<Rightarrow> loadGroupLocalizationsFrom env inst2 (c # cs))
                | _ \<Rightarrow> Inr inst1)))"

subsection \<open>Fragments and merged tables\<close>





subsection \<open>Example values\<close>

definition demo_client :: Client where
  "demo_client = \<lparr>localeDir = None, commandsDir = Some ''/bot/commands'', disableBase = [],
                    commands = [(''setlang'', True), (''ping'', False)]\<rparr>"

definition other_client :: Client where
  "other_client = \<lparr>localeDir = Some ''/bot/locale'', commandsDir = None, disableBase = [],
                     commands = []\<rparr>"

text \<open>The template \<open>Score: {{ score?}}\<close> followed by a line break.\<close>

definition score_template :: string where
  "score_template = ''Score: {{ score?}}'' @ [LF]"

text \<open>The same with the line break written as the two characters backslash and \<open>n\<close>,
  as a stored template has it.\<close>

definition score_template_escaped :: string where
  "score_template_escaped = ''Score: {{ score?}}'' @ [BSL, CHR ''n'']"

text \<open>A template with the optional token alone on its line.\<close>

definition own_line_template :: string where
  "own_line_template = ''Total'' @ [LF] @ ''{{ score?}}'' @ [LF] @ ''End''"

text \<open>An instance with one language.\<close>

definition demo_strings :: "(string \<times> string) list" where
  "demo_strings =
     [(''HELLO'', ''Hello {{ name }}!''),
      (''EMPTY'', []),
      (''SCORE'', score_template),
      (''TOTAL'', own_line_template),
      (''NO_VALUE'', ''a{{! void 0 !}}b''),
      (''RETRY_FAULT'', ''x{{!{}[0].x!}}y''),
      (''FAULT'', ''x{{! null.x !}}y''),
      (''LATE_FAULT'', ''{{! void 0 !}}'' @ [LF] @ ''{{! null.x !}}''),
      (''TWO_BLOCKS'', ''{{! args.a !}} and {{! args.b !}}''),
      (''SCORE_ESCAPED'', score_template_escaped)]"

definition demo_lang :: Lang where
  "demo_lang =
     \<lparr>p_client = demo_client,
      p_commandInfo = [(''ping'', [(''de'', \<lparr>desc = Some ''Pong zurueck'', info = Some [], usage = None\<rparr>)])],
      p_groupInfo = [],
      p_langs = [(''en_us'', \<lparr>lang_name = ''en_us'', strings = demo_strings\<rparr>)],
      p_meta = []\<rparr>"

definition ping :: Command where
  "ping = \<lparr>desc = Some ''D'', info = Some ''I'', usage = Some ''U'', name = ''ping''\<rparr>"

text \<open>
  A table of what a JavaScript engine does on the bodies used in the examples.
  \<open>void 0\<close> runs and returns nothing, with or without \<open>return\<close> before it.
  \<open>{}[0].x\<close> as a function body is an empty block followed by the expression
  \<open>[0].x\<close>: it runs and returns nothing; after \<open>return\<close> it reads \<open>x\<close> of
  \<open>({})[0]\<close>, which is \<open>undefined\<close>, and throws a TypeError. \<open>null.x\<close> throws.
  \<open>args.a\<close> alone is an expression statement; after \<open>return\<close> it gives the entry
  \<open>a\<close> of the data bag. Every other body is taken not to parse.
\<close>

definition data_value :: "TemplateData \<Rightarrow> string \<Rightarrow> js_value" where
  "data_value data k = (case map_of data k of None \<Rightarrow> Undefined | Some v \<Rightarrow> v)"

definition demo_js :: js_engine where
  "demo_js body data =
     (if body = '' void 0 '' \<or> body = ''return void 0 '' then Returns Undefined
      else if body = ''{}[0].x'' then Returns Undefined
      else if body = ''return {}[0].x'' then Throws ''TypeError: Cannot read properties of undefined''
      else if body = '' null.x '' then Throws ''TypeError: Cannot read properties of null''
      else if body = '' args.a '' \<or> body = '' args.b '' then Returns Undefined
      else if body = ''return args.a '' then Returns (data_value data ''a'')
      else if body = ''return args.b '' then Returns (data_value data ''b'')
      else SyntaxErr ''SyntaxError: Unexpected token'')"

text \<open>
  What the \<open>RegExp\<close> constructor does on the sources that the examples build from a key
  with metacharacters: the key \<open>.*\<close> gives expressions that match a token of any name;
  every other such source is taken not to be a regular expression, as the one built
  from the key \<open>(\<close> is not.
\<close>

definition not_line_break :: "char \<Rightarrow> bool" where
  "not_line_break c = (c \<noteq> LF \<and> c \<noteq> CR)"

definition demo_re :: regexp_engine where
  "demo_re source =
     (if source = ''{{ *.* *'' @ [BSL] @ ''?}}''
      then Inr (regexp_of (seqs [Lits ''{{'', Star space, Star not_line_break, Star space,
                                 Lits ''?}}'']))
      else if source = ''{{ *.* *'' @ [BSL] @ ''??}}''
      then Inr (regexp_of (seqs [Lits ''{{'', Star space, Star not_line_break, Star space,
                                 Opt (Lits ''?''), Lits ''}}'']))
      else Inl ''SyntaxError: Invalid regular expression'')"

text \<open>Whether the direct run of a piece of script text returns (with or without a value).\<close>

definition returns_directly :: "js_engine \<Rightarrow> TemplateData \<Rightarrow> string \<Rightarrow> bool" where
  "returns_directly js data scriptData =
     (case functionBody scriptData of
        Inl e \<Rightarrow> False
      | Inr body \<Rightarrow> (case js body data of Returns v \<Rightarrow> True | _ \<Rightarrow> False))"

text \<open>
  A file system for the examples. Under \<open>/bot/locale\<close> three files belong to
  \<open>en_us\<close>; under \<open>/bot/commands\<close> one helptext file and the file of group descriptions
  do not parse; under \<open>/bot/odd\<close> one file is named \<open>constructor.lang\<close>.
\<close>

definition demo_glob :: "string \<Rightarrow> string list" where
  "demo_glob pattern =
     (if pattern = ''/bot/locale/**/*.lang''
      then [''/bot/locale/en_us.lang'', ''/bot/locale/fr.lang'', ''/bot/locale/en_us.extra.lang'',
            ''/bot/locale/sub/en_us.cmd.lang'']
      else if pattern = ''/bot/commands/**/*.lang.json''
      then [''/bot/commands/ping.lang.json'', ''/bot/commands/broken.lang.json'',
            ''/bot/commands/commandgroups.lang.json'', ''/bot/commands/help.lang.json'']
      else if pattern = ''/bot/commands/**/commandgroups.lang.json''
      then [''/bot/commands/commandgroups.lang.json'']
      else if pattern = ''/bot/odd/**/*.lang''
      then [''/bot/odd/en_us.lang'', ''/bot/odd/constructor.lang'']
      else [])"

definition demo_read :: "string \<Rightarrow> string" where
  "demo_read langFile =
     (if langFile = ''/bot/locale/en_us.lang'' then ''HELLO=Hello''
      else if langFile = ''/bot/locale/en_us.extra.lang'' then ''BYE=Bye''
      else if langFile = ''/bot/locale/sub/en_us.cmd.lang'' then ''HELLO=Howdy''
      else if langFile = ''/bot/locale/fr.lang'' then ''HELLO=Salut''
      else [])"

text \<open>A stand-in for the parser: a file holds one entry, written \<open>KEY=text\<close>.\<close>

definition demo_parse :: "string \<Rightarrow> string \<Rightarrow> Language" where
  "demo_parse langName text =
     \<lparr>lang_name = langName,
      strings = [(takeWhile (\<lambda>c. c \<noteq> CHR ''='') text, drop 1 (dropWhile (\<lambda>c. c \<noteq> CHR ''='') text))]\<rparr>"

definition demo_require_commands ::
  "string \<Rightarrow> string + (string \<times> (string \<times> LocalizedCommandInfo) list) list"
where
  "demo_require_commands langFile =
     (if langFile = ''/bot/commands/ping.lang.json''
      then Inr [(''ping'', [(''fr'', \<lparr>desc = Some ''Renvoie pong'', info = None, usage = None\<rparr>)])]
      else if langFile = ''/bot/commands/help.lang.json''
      then Inr [(''help'', [(''fr'', \<lparr>desc = Some ''Aide'', info = None, usage = Some ''<prefix>aide''\<rparr>)])]
      else Inl ''SyntaxError: Unexpected token } in JSON'')"

definition demo_require_groups :: "string \<Rightarrow> string + (string \<times> (string \<times> string) list) list" where
  "demo_require_groups filePath = Inl ''SyntaxError: Unexpected token } in JSON''"

definition demo_env :: environment where
  "demo_env =
     \<lparr>glob_sync = demo_glob, path_resolve = (\<lambda>dir. dir), readFileSync = demo_read,
      require_commands = demo_require_commands, require_groups = demo_require_groups,
      en_us_dir = ''/yamdbf/en_us'',
      parseFile = demo_parse\<rparr>"




section \<open>Properties\<close>

subsection \<open>Lookup misses\<close>

lemma property_of_Own: "map_of obj nm = Some v \<Longrightarrow> property_of obj nm = Own v"
  by (simp add: property_of_def)

lemma property_of_Missing:
  "map_of obj nm = None \<Longrightarrow> nm \<notin> set object_prototype_names \<Longrightarrow> property_of obj nm = Missing"
  by (simp add: property_of_def)

lemma property_of_Inherited:
  "map_of obj nm = None \<Longrightarrow> nm \<in> set object_prototype_names \<Longrightarrow> property_of obj nm = Inherited"
  by (simp add: property_of_def)

text \<open>
  With the instance created, a language or a key that is neither in its table nor the
  name of an inherited property gives the sentinel.
\<close>

lemma res_lookup_miss_sentinel:
  assumes "property_of (p_langs l) lang = Missing \<or>
           (\<exists>language. property_of (p_langs l) lang = Own language \<and>
                       property_of (strings language) key = Missing)"
  shows "res js re (Some l) lang key data = Inr (lang @ ''::'' @ key)"
  using assms by (auto simp: res_def langs_def sentinel_def)

text \<open>A language that is not in the store and names an inherited property makes
  \<open>res\<close> throw, whatever the key.\<close>

lemma res_inherited_lang_throws:
  assumes "property_of (p_langs l) lang = Inherited"
  shows "res js re (Some l) lang key data =
           Inl (TypeError (''Cannot read properties of undefined (reading '' @ [CHR 0x27] @ key @
                           [CHR 0x27] @ '')''))"
  using assms by (simp add: res_def langs_def)

text \<open>So does a key that is not in the table of its language and names an inherited
  property.\<close>

lemma res_inherited_key_throws:
  assumes "property_of (p_langs l) lang = Own language"
    and "property_of (strings language) key = Inherited"
  shows "\<exists>e. res js re (Some l) lang key data = Inl e"
  using assms by (simp add: res_def langs_def)

text \<open>
  C1 fails on the code. The claim has \<open>res\<close> return \<open>lang::key\<close>, and not throw, for
  every language without an entry in the store and every key without an entry in the
  table. The store and the tables are plain objects: \<open>constructor\<close> has no entry in
  either, but \<open>Lang.langs['constructor']\<close> is the function \<open>Object\<close>, which passes the
  guard \<open>!Lang.langs[lang]\<close>, and \<open>res\<close> throws a TypeError on reading \<open>strings[key]\<close>;
  \<open>strings['constructor']\<close> passes the guard \<open>!loadedString\<close>, and \<open>res\<close> throws a
  TypeError on calling \<open>loadedString.replace\<close>.
\<close>

theorem res_inherited_name_throws:
  "res demo_js demo_re (Some demo_lang) ''constructor'' ''HELLO'' [] =
     Inl (TypeError (''Cannot read properties of undefined (reading '' @ [CHR 0x27] @ ''HELLO'' @
                     [CHR 0x27] @ '')'')) \<and>
   res demo_js demo_re (Some demo_lang) ''en_us'' ''constructor'' [] =
     Inl (TypeError ''loadedString.replace is not a function'') \<and>
   map_of (p_langs demo_lang) ''constructor'' = None \<and>
   map_of demo_strings ''constructor'' = None"
  by code_simp

text \<open>For a key that names an inherited property, an empty template and an absent
  key differ: with the empty template stored \<open>res\<close> returns the sentinel, without the
  key it throws.\<close>

lemma empty_template_under_inherited_name:
  "res demo_js demo_re
     (Some (demo_lang\<lparr>p_langs := [(''en_us'', \<lparr>lang_name = ''en_us'', strings = [(''constructor'', [])]\<rparr>)]\<rparr>))
     ''en_us'' ''constructor'' [] = Inr ''en_us::constructor'' \<and>
   res demo_js demo_re
     (Some (demo_lang\<lparr>p_langs := [(''en_us'', \<lparr>lang_name = ''en_us'', strings = []\<rparr>)]\<rparr>))
     ''en_us'' ''constructor'' [] = Inl (TypeError ''loadedString.replace is not a function'')"
  by code_simp



subsection \<open>Construction\<close>

text \<open>
  C7 does not hold as stated: a second call of \<open>createInstance\<close>, the only way to
  construct from outside the class, returns normally and reports nothing.
\<close>

theorem createInstance_twice_no_error:
  "createInstance (Some demo_lang) other_client = Inr (Some demo_lang)"
  by (simp add: createInstance_def)

text \<open>
  C7, as amended. With the instance in place, \<open>createInstance\<close> returns without an
  error and leaves the instance as it was; the private constructor, were it run,
  throws the error \<open>Cannot create multiple instances of Lang singleton\<close>. Neither
  replaces the existing state.
\<close>

theorem second_construction:
  "createInstance (Some l) client = Inr (Some l) \<and>
   new_Lang (Some l) client =
     Inl (Error ''Cannot create multiple instances of Lang singleton. Use Lang.createInstance() instead'')"
  by (simp add: createInstance_def new_Lang_def)

theorem second_construction_witness:
  "createInstance (Some demo_lang) demo_client = Inr (Some demo_lang) \<and>
   new_Lang (Some demo_lang) demo_client =
     Inl (Error ''Cannot create multiple instances of Lang singleton. Use Lang.createInstance() instead'')"
  using second_construction [where l = demo_lang and client = demo_client] by simp

subsection \<open>Command helptext\<close>

text \<open>
  C6. For a command and a language, \<open>getCommandInfo\<close> returns a triple in which each
  of \<open>desc\<close>, \<open>info\<close> and \<open>usage\<close> is the localized value for the command's name and
  the language when that field is present and not empty, and the command's own
  compiled-in default otherwise; with no entry for the language it returns exactly
  the command's defaults.
\<close>

theorem getCommandInfo_per_field:
  fixes l :: Lang and cmd :: Command and lang :: string
  defines "entry \<equiv> getNestedValue (p_commandInfo l) (name cmd) lang"
  shows "\<exists>r. getCommandInfo (Some l) (ACommand cmd) lang = Inr r \<and>
    (\<forall>i c cs. entry = Some i \<and> desc i = Some (c # cs) \<longrightarrow> desc r = Some (c # cs)) \<and>
    (\<forall>i c cs. entry = Some i \<and> info i = Some (c # cs) \<longrightarrow> info r = Some (c # cs)) \<and>
    (\<forall>i c cs. entry = Some i \<and> usage i = Some (c # cs) \<longrightarrow> usage r = Some (c # cs)) \<and>
    (entry = None \<or> (\<exists>i. entry = Some i \<and> (desc i = None \<or> desc i = Some [])) \<longrightarrow> desc r = desc cmd) \<and>
    (entry = None \<or> (\<exists>i. entry = Some i \<and> (info i = None \<or> info i = Some [])) \<longrightarrow> info r = info cmd) \<and>
    (entry = None \<or> (\<exists>i. entry = Some i \<and> (usage i = None \<or> usage i = Some [])) \<longrightarrow> usage r = usage cmd) \<and>
    (entry = None \<longrightarrow> r = \<lparr>desc = desc cmd, info = info cmd, usage = usage cmd\<rparr>)"
  unfolding entry_def
  by (auto simp: getCommandInfo_def localized_field_def or_else_def)

theorem getCommandInfo_per_field_witness:
  "getCommandInfo (Some demo_lang) (ACommand ping) ''de'' =
     Inr \<lparr>desc = Some ''Pong zurueck'', info = Some ''I'', usage = Some ''U''\<rparr> \<and>
   getCommandInfo (Some demo_lang) (ACommand ping) ''fr'' =
     Inr \<lparr>desc = Some ''D'', info = Some ''I'', usage = Some ''U''\<rparr>"
proof -
  have de: "getNestedValue (p_commandInfo demo_lang) (name ping) ''de'' =
              Some \<lparr>desc = Some ''Pong zurueck'', info = Some [], usage = None\<rparr>"
    by (simp add: getNestedValue_def demo_lang_def ping_def)
  have fr: "getNestedValue (p_commandInfo demo_lang) (name ping) ''fr'' = None"
    by (simp add: getNestedValue_def demo_lang_def ping_def)
  obtain r where r: "getCommandInfo (Some demo_lang) (ACommand ping) ''de'' = Inr r"
    "desc r = Some ''Pong zurueck''" "info r = info ping" "usage r = usage ping"
    using getCommandInfo_per_field [where l = demo_lang and cmd = ping and lang = "''de''"] de
    by auto
  obtain r' where r': "getCommandInfo (Some demo_lang) (ACommand ping) ''fr'' = Inr r'"
    "r' = \<lparr>desc = desc ping, info = info ping, usage = usage ping\<rparr>"
    using getCommandInfo_per_field [where l = demo_lang and cmd = ping and lang = "''fr''"] fr
    by auto
  from r have "r = \<lparr>desc = Some ''Pong zurueck'', info = Some ''I'', usage = Some ''U''\<rparr>"
    by (cases r) (simp add: ping_def)
  with r(1) r' show ?thesis by (simp add: ping_def)
qed

subsection \<open>Optional tokens\<close>

lemma rx_test_match_all: "rx_test r s \<longleftrightarrow> rx_match_all r s \<noteq> []"
  by (simp add: rx_test_def rx_exec_def rx_match_all_def split: list.splits)


lemma strip_prefix_Some: "strip_prefix k s = Some r \<longleftrightarrow> s = k @ r"
  by (induction k s rule: strip_prefix.induct) auto
















lemma scriptTemplate_at_end: "rxm scriptTemplate (p, [], c) = []"
  by (simp add: scriptTemplate_def)
























text \<open>A key with metacharacters is not covered by what follows: the expression made
  from the key \<open>.*\<close> matches the token \<open>{{ score?}}\<close>, and its value is put there.\<close>

lemma metacharacter_key_substitutes:
  "res demo_js demo_re (Some demo_lang) ''en_us'' ''SCORE'' [(''.*'', Str ''X'')] =
     Inr (''Score: X'' @ [LF]) \<and>
   res demo_js demo_re (Some demo_lang) ''en_us'' ''SCORE'' [(''('', Str ''X'')] =
     Inl (RegExpSyntaxError ''SyntaxError: Invalid regular expression'')"
  by code_simp




subsection \<open>Script blocks\<close>

lemma star_results_suffix:
  "(p', s') \<in> set (star_results f p s) \<Longrightarrow> \<exists>t. s = t @ s'"
proof (induction s arbitrary: p)
  case Nil
  then show ?case by simp
next
  case (Cons x xs)
  show ?case
  proof (cases "f x \<and> (p', s') \<in> set (star_results f (Some x) xs)")
    case True
    then obtain t where "xs = t @ s'" using Cons.IH by blast
    then have "x # xs = (x # t) @ s'" by simp
    then show ?thesis by blast
  next
    case False
    with Cons.prems have "s' = x # xs" by (auto split: if_splits)
    then show ?thesis by simp
  qed
qed

lemma rxm_suffix:
  "(p', s', c') \<in> set (rxm r (p, s, c)) \<Longrightarrow> \<exists>t. s = t @ s'"
proof (induction r arbitrary: p s c p' s' c')
  case (Lits l)
  show ?case
  proof (cases "strip_prefix l s")
    case None
    with Lits show ?thesis by simp
  next
    case (Some r)
    with Lits have "s' = r" by simp
    with Some show ?thesis by (auto simp: strip_prefix_Some)
  qed
next
  case (Cls f)
  then show ?case by (cases s) (auto split: if_splits)
next
  case (Star f)
  then show ?case by (auto dest: star_results_suffix)
next
  case (Plus f)
  then show ?case
  proof (cases s)
    case Nil
    with Plus show ?thesis by simp
  next
    case (Cons x xs)
    with Plus obtain t where "xs = t @ s'"
      by (auto split: if_splits dest: star_results_suffix)
    with Cons have "s = (x # t) @ s'" by simp
    then show ?thesis by blast
  qed
next
  case (Opt r)
  then show ?case by auto
next
  case (Seq a b)
  from Seq.prems obtain p1 s1 c1 where
    "(p1, s1, c1) \<in> set (rxm a (p, s, c))" "(p', s', c') \<in> set (rxm b (p1, s1, c1))"
    by auto
  then obtain t u where "s = t @ s1" "s1 = u @ s'"
    using Seq.IH by blast
  then have "s = (t @ u) @ s'" by simp
  then show ?case by blast
next
  case (Alt a b)
  then show ?case by auto
next
  case (Grp n r)
  then show ?case by auto
next
  case Bol
  then show ?case by (auto split: if_splits)
next
  case Bos
  then show ?case by (auto split: if_splits)
next
  case Eos
  then show ?case by (auto split: if_splits)
qed


lemma greedy_first:
  "\<exists>q more. concat (map (\<lambda>(p', s'). rxm (Lits ''!}}'') (p', s', cap s'))
                       (star_results any_char p (u @ ''!}}''))) =
     (q, [], cap ''!}}'') # more"
proof (induction u arbitrary: p)
  case Nil
  show ?case by (simp add: any_char_def)
next
  case (Cons x u)
  obtain q more where
    "concat (map (\<lambda>(p', s'). rxm (Lits ''!}}'') (p', s', cap s'))
               (star_results any_char (Some x) (u @ ''!}}''))) =
       (q, [], cap ''!}}'') # more"
    using Cons.IH by blast
  moreover have "any_char x" by (simp add: any_char_def)
  ultimately show ?case by (simp del: rxm.simps)
qed

lemma line_feed_needed:
  "LF \<notin> set s \<Longrightarrow> rxm (Lits [LF]) (p, s, c) = []"
  by (cases s) auto

lemma seq_line_feed_needed:
  assumes "\<And>p s c. LF \<notin> set s \<Longrightarrow> rxm b (p, s, c) = []" and "LF \<notin> set s"
  shows "rxm (Seq a b) (p, s, c) = []"
proof -
  have "rxm b st' = []" if "st' \<in> set (rxm a (p, s, c))" for st'
  proof -
    obtain p' s' c' where st': "st' = (p', s', c')" by (cases st')
    with that obtain t where "s = t @ s'" by (auto dest: rxm_suffix)
    with assms(2) have "LF \<notin> set s'" by simp
    then have "rxm b (p', s', c') = []" by (rule assms(1))
    with st' show ?thesis by simp
  qed
  then show ?thesis by simp
qed

lemma own_line_needs_line_feed:
  assumes "LF \<notin> set s"
  shows "rxm (seqs [Bol, Lits ''{{!'', Grp 1 (Plus any_char), Lits ''!}}'', Star tab_or_space, Lits [LF]])
           (p, s, c) = []"
  unfolding seqs.simps using assms
  by (intro seq_line_feed_needed line_feed_needed)


lemma scan_covered:
  "(\<And>p. rxm r (p, [], []) = []) \<Longrightarrow> rx_scan r (length xs) p xs = []"
  by (induction xs arbitrary: p) simp_all

lemma block_alternative:
  "\<exists>q more. rxm (seqs [Lits ''{{!'', Grp 2 (Plus any_char), Lits ''!}}''])
               (None, ''{{!'' @ x # body @ ''!}}'', []) =
             (q, [], [(2, x # body)]) # more"
proof -
  let ?cap = "\<lambda>s'. [(2, take (length (x # body @ ''!}}'') - length s') (x # body @ ''!}}''))]"
  obtain q more where
    "concat (map (\<lambda>(p', s'). rxm (Lits ''!}}'') (p', s', ?cap s'))
               (star_results any_char (Some x) (body @ ''!}}''))) =
       (q, [], ?cap ''!}}'') # more"
    using greedy_first [of ?cap "Some x" body] by blast
  moreover have "any_char x" by (simp add: any_char_def)
  moreover have "rxm (seqs [Lits ''{{!'', Grp 2 (Plus any_char), Lits ''!}}''])
               (None, ''{{!'' @ x # body @ ''!}}'', []) =
      concat (map (\<lambda>(p', s'). rxm (Lits ''!}}'') (p', s', ?cap s'))
               (star_results any_char (Some x) (body @ ''!}}'')))"
    using \<open>any_char x\<close>
    by (simp add: comp_def split_def del: rxm.simps(1) star_results.simps)
       (simp add: map_concat comp_def split_def)
  ultimately show ?thesis by simp
qed

text \<open>
  Whatever stands between an opening marker and a closing marker at the end of the
  text, other closing and opening markers included, is taken as one block when it has
  no line break in it.
\<close>

lemma span_to_last_closing_marker:
  assumes "LF \<notin> set (x # body)"
  shows "rx_match_all scriptTemplate (''{{!'' @ x # body @ ''!}}'') = [''{{!'' @ x # body @ ''!}}'']"
proof -
  let ?s = "''{{!'' @ x # body @ ''!}}''"
  have "LF \<notin> set ?s" using assms by simp
  then have own: "rxm (seqs [Bol, Lits ''{{!'', Grp 1 (Plus any_char), Lits ''!}}'', Star tab_or_space,
                             Lits [LF]]) (None, ?s, []) = []"
    by (rule own_line_needs_line_feed)
  obtain q more where
    blk: "rxm (seqs [Lits ''{{!'', Grp 2 (Plus any_char), Lits ''!}}'']) (None, ?s, []) =
            (q, [], [(2, x # body)]) # more"
    using block_alternative by blast
  have first: "rxm scriptTemplate (None, ?s, []) = (q, [], [(2, x # body)]) # more"
    unfolding scriptTemplate_def rxm.simps(7) own blk by simp
  have "rx_scan scriptTemplate 0 None ?s =
      [Inr \<lparr>matched = ?s, groups = [(2, x # body)]\<rparr>]"
  proof -
    have s: "?s = CHR ''{'' # (''{!'' @ x # body @ ''!}}'')" by simp
    have len: "length ?s - 1 = length (''{!'' @ x # body @ ''!}}'')" by simp
    have "rx_scan scriptTemplate (length (''{!'' @ x # body @ ''!}}'')) (Some CHR ''{'')
            (''{!'' @ x # body @ ''!}}'') = []"
      by (rule scan_covered) (rule scriptTemplate_at_end)
    then show ?thesis
      using first unfolding s by (simp del: rxm.simps)
  qed
  then show ?thesis by (simp add: rx_match_all_def)
qed

text \<open>So two blocks on one line are matched as a single piece of script text.\<close>

lemma two_blocks_one_span:
  assumes "LF \<notin> set (x # a @ mid @ b)"
  shows "rx_match_all scriptTemplate (''{{!'' @ x # a @ ''!}}'' @ mid @ ''{{!'' @ b @ ''!}}'') =
           [''{{!'' @ x # a @ ''!}}'' @ mid @ ''{{!'' @ b @ ''!}}'']"
proof -
  from assms have "LF \<notin> set (x # (a @ ''!}}'' @ mid @ ''{{!'' @ b))"
    by simp
  from span_to_last_closing_marker [OF this] show ?thesis by simp
qed

text \<open>A block that gives no value in either try is replaced by the text \<open>undefined\<close>.\<close>

lemma no_value_gives_undefined_text:
  assumes "functionBody blk = Inr body" and "js body data = Returns Undefined"
    and "implicit_return js data body = Undefined"
  shows "run_scripts js lang key data loaded (blk # rest) =
           run_scripts js lang key data
             (str_replace_first blk (''undefined'' @ (if rx_test scriptOwnLine blk then [LF] else [])) loaded) rest"
  using assms by simp

text \<open>
  C4 fails on the code. The body \<open>void 0\<close> runs without a fault and gives no value,
  directly and after \<open>return\<close>; the claim has its block replaced by the empty string,
  \<open>res\<close> puts the text \<open>undefined\<close> there.
\<close>

theorem no_value_block_gives_undefined_text:
  "res demo_js demo_re (Some demo_lang) ''en_us'' ''NO_VALUE'' [] = Inr ''aundefinedb''"
  by code_simp

text \<open>
  C9 fails on the code. In a template with two blocks on one line, the greedy
  \<open>[\s\S]+\<close> of \<open>scriptTemplate\<close> runs from the first opening marker to the last
  closing marker: there is one match, its body holds the first closing marker, the
  text in between and the second opening marker, and the \<open>Function\<close> constructor
  rejects it. The blocks are not evaluated one at a time.
\<close>

theorem two_blocks_matched_as_one:
  "rx_match_all scriptTemplate ''{{! args.a !}} and {{! args.b !}}'' =
     [''{{! args.a !}} and {{! args.b !}}''] \<and>
   functionBody ''{{! args.a !}} and {{! args.b !}}'' = Inr '' args.a !}} and {{! args.b '' \<and>
   res demo_js demo_re (Some demo_lang) ''en_us'' ''TWO_BLOCKS'' [(''a'', Str ''A''), (''b'', Str ''B'')] =
     Inl (ScriptSyntaxError ''SyntaxError: Unexpected token'')"
  by code_simp

text \<open>
  C2 does not hold as stated: the body \<open>{}[0].x\<close> returns nothing when run directly,
  throws a TypeError in the retry with \<open>return\<close> before it, and \<open>res\<close> returns a
  string all the same.
\<close>

theorem retry_fault_swallowed:
  "res demo_js demo_re (Some demo_lang) ''en_us'' ''RETRY_FAULT'' [] = Inr ''xundefinedy''"
  by code_simp

lemma run_scripts_direct_fault:
  assumes "list_all (returns_directly js data) pre"
    and "functionBody blk = Inr body" and "js body data = Throws e"
  shows "run_scripts js lang key data loaded (pre @ blk # post) =
           Inl (Error (''in embedded localization script for: '' @ lang @ ''::'' @ key @ [LF] @ e))"
  using assms
proof (induction pre arbitrary: loaded)
  case Nil
  then show ?case by simp
next
  case (Cons b pre)
  from Cons.prems(1) obtain body' v where b: "functionBody b = Inr body'" "js body' data = Returns v"
    by (auto simp: returns_directly_def split: sum.splits outcome.splits)
  from Cons.prems(1) have rest: "list_all (returns_directly js data) pre"
    by simp
  have step: "run_scripts js lang key data s (pre @ blk # post) =
           Inl (Error (''in embedded localization script for: '' @ lang @ ''::'' @ key @ [LF] @ e))" for s
    using Cons.IH [where loaded = s] rest Cons.prems(2,3) by simp
  show ?case
    using b step by (simp add: Let_def)
qed

lemma run_scripts_retry_fault:
  assumes "functionBody blk = Inr body" and "js body data = Returns Undefined"
    and "js (''return '' @ rx_replace_first leadingSpace [] body) data = Throws e"
  shows "run_scripts js lang key data loaded (blk # rest) =
           run_scripts js lang key data
             (str_replace_first blk (''undefined'' @ (if rx_test scriptOwnLine blk then [LF] else [])) loaded) rest"
  using assms by (simp add: implicit_return_def)

text \<open>
  C2, as amended. When the direct evaluation of a block throws, the blocks before it
  having returned, \<open>res\<close> fails with an error whose message names the language and
  the key and carries the fault, and no text is returned. A fault thrown by the retry
  with \<open>return\<close> is dropped: the result of the block stays \<open>undefined\<close> and the
  loop goes on with the next block.
\<close>

theorem direct_fault_fails_retry_fault_dropped:
  assumes "map_of (p_langs l) lang = Some language"
    and "map_of (strings language) key = Some template" and "template \<noteq> []"
    and "substitute re data template = Inr substituted"
    and "rx_match_all scriptTemplate substituted = pre @ blk # post"
    and "list_all (returns_directly js data) pre"
    and "functionBody blk = Inr body"
  shows "(js body data = Throws e \<longrightarrow>
            res js re (Some l) lang key data =
              Inl (Error (''in embedded localization script for: '' @ lang @ ''::'' @ key @ [LF] @ e))) \<and>
         (js body data = Returns Undefined \<and>
          js (''return '' @ rx_replace_first leadingSpace [] body) data = Throws e \<longrightarrow>
            run_scripts js lang key data loaded (blk # post) =
              run_scripts js lang key data
                (str_replace_first blk (''undefined'' @ (if rx_test scriptOwnLine blk then [LF] else []))
                   loaded) post)"
proof (intro conjI impI)
  assume t: "js body data = Throws e"
  have "rx_test scriptTemplate substituted"
    using assms(5) by (simp add: rx_test_match_all)
  moreover have "run_scripts js lang key data substituted (pre @ blk # post) =
      Inl (Error (''in embedded localization script for: '' @ lang @ ''::'' @ key @ [LF] @ e))"
    using assms(6) assms(7) t by (rule run_scripts_direct_fault)
  ultimately show "res js re (Some l) lang key data =
      Inl (Error (''in embedded localization script for: '' @ lang @ ''::'' @ key @ [LF] @ e))"
    using assms(1-5) by (simp add: res_def langs_def scripts_def property_of_Own)
next
  assume "js body data = Returns Undefined \<and>
          js (''return '' @ rx_replace_first leadingSpace [] body) data = Throws e"
  then show "run_scripts js lang key data loaded (blk # post) =
              run_scripts js lang key data
                (str_replace_first blk (''undefined'' @ (if rx_test scriptOwnLine blk then [LF] else []))
                   loaded) post"
    using run_scripts_retry_fault [where blk = blk and body = body and js = js and data = data and e = e] assms(7)
    by blast
qed

theorem direct_fault_fails_retry_fault_dropped_witness:
  "res demo_js demo_re (Some demo_lang) ''en_us'' ''LATE_FAULT'' [] =
     Inl (Error (''in embedded localization script for: en_us::LATE_FAULT'' @ [LF] @
                 ''TypeError: Cannot read properties of null'')) \<and>
   run_scripts demo_js ''en_us'' ''RETRY_FAULT'' [] ''x{{!{}[0].x!}}y'' [''{{!{}[0].x!}}''] =
     Inr ''xundefinedy''"
proof -
  let ?language = "\<lparr>lang_name = ''en_us'', strings = demo_strings\<rparr>"
  let ?late = "''{{! void 0 !}}'' @ [LF] @ ''{{! null.x !}}''"
  have a: "map_of (p_langs demo_lang) ''en_us'' = Some ?language"
    by (simp add: demo_lang_def)
  have b: "map_of (strings ?language) ''LATE_FAULT'' = Some ?late"
    by (simp add: demo_strings_def)
  have c: "?late \<noteq> []" by simp
  have d: "substitute demo_re [] ?late = Inr ?late" by simp
  have e: "rx_match_all scriptTemplate ?late = [''{{! void 0 !}}'' @ [LF]] @ ''{{! null.x !}}'' # []"
    by code_simp
  have f: "list_all (returns_directly demo_js []) [''{{! void 0 !}}'' @ [LF]]"
    by code_simp
  have g: "functionBody ''{{! null.x !}}'' = Inr '' null.x ''" by code_simp
  have h: "demo_js '' null.x '' [] = Throws ''TypeError: Cannot read properties of null''"
    by code_simp
  have first: "res demo_js demo_re (Some demo_lang) ''en_us'' ''LATE_FAULT'' [] =
     Inl (Error (''in embedded localization script for: en_us::LATE_FAULT'' @ [LF] @
                 ''TypeError: Cannot read properties of null''))"
    using direct_fault_fails_retry_fault_dropped [where l = demo_lang and lang = "''en_us''" and
        language = ?language and key = "''LATE_FAULT''" and template = ?late and data = "[]" and
        substituted = ?late and pre = "[''{{! void 0 !}}'' @ [LF]]" and blk = "''{{! null.x !}}''" and
        post = "[]" and js = demo_js and re = demo_re and body = "'' null.x ''" and
        e = "''TypeError: Cannot read properties of null''", OF a b c d e f g] h
    by simp
  have b': "map_of (strings ?language) ''RETRY_FAULT'' = Some ''x{{!{}[0].x!}}y''"
    by (simp add: demo_strings_def)
  have c': "''x{{!{}[0].x!}}y'' \<noteq> []" by simp
  have d': "substitute demo_re [] ''x{{!{}[0].x!}}y'' = Inr ''x{{!{}[0].x!}}y''" by simp
  have e': "rx_match_all scriptTemplate ''x{{!{}[0].x!}}y'' = [] @ ''{{!{}[0].x!}}'' # []"
    by code_simp
  have f': "list_all (returns_directly demo_js []) []" by simp
  have g': "functionBody ''{{!{}[0].x!}}'' = Inr ''{}[0].x''" by code_simp
  have h': "demo_js ''{}[0].x'' [] = Returns Undefined \<and>
            demo_js (''return '' @ rx_replace_first leadingSpace [] ''{}[0].x'') [] =
              Throws ''TypeError: Cannot read properties of undefined''"
    by code_simp
  have i': "str_replace_first ''{{!{}[0].x!}}''
              (''undefined'' @ (if rx_test scriptOwnLine ''{{!{}[0].x!}}'' then [LF] else []))
              ''x{{!{}[0].x!}}y'' = ''xundefinedy''"
    by code_simp
  have second: "run_scripts demo_js ''en_us'' ''RETRY_FAULT'' [] ''x{{!{}[0].x!}}y'' [''{{!{}[0].x!}}''] =
     Inr ''xundefinedy''"
    using direct_fault_fails_retry_fault_dropped [where l = demo_lang and lang = "''en_us''" and
        language = ?language and key = "''RETRY_FAULT''" and template = "''x{{!{}[0].x!}}y''" and
        data = "[]" and substituted = "''x{{!{}[0].x!}}y''" and pre = "[]" and
        blk = "''{{!{}[0].x!}}''" and post = "[]" and js = demo_js and re = demo_re and body = "''{}[0].x''" and
        e = "''TypeError: Cannot read properties of undefined''" and loaded = "''x{{!{}[0].x!}}y''",
        OF a b' c' d' e' f' g'] h' i'
    by (simp del: run_scripts.simps(2) add: run_scripts.simps(1))
  from first second show ?thesis by (rule conjI)
qed

subsection \<open>Merging language files\<close>
























text \<open>A file named \<open>constructor.lang\<close> stops the load: \<open>langs['constructor']\<close> is
  the function \<open>Object\<close>, which has no \<open>push\<close>.\<close>

lemma inherited_language_name_stops_load:
  "loadLocalizationsFrom demo_env (Some demo_lang) ''/bot/odd'' =
     Inl (TypeError ''langs[langName].push is not a function'')"
  by code_simp



subsection \<open>Parse failures in the helptext loaders\<close>

lemma load_command_files_skip:
  "require_commands env f = Inl err \<Longrightarrow>
   load_command_files env (pre @ f # post) tbl = load_command_files env (pre @ post) tbl"
  by (induction pre arbitrary: tbl) (auto split: sum.splits)

lemma helptext_failure_skipped:
  assumes "glob_sync env (path_resolve env dir @ ''/**/*.lang.json'') = pre @ f # post"
    and "require_commands env f = Inl err"
  shows "loadCommandLocalizationsFrom env (Some l) dir =
           Inr (Some (postLoad (l\<lparr>p_commandInfo := load_command_files env (pre @ post) (p_commandInfo l)\<rparr>)))"
  using assms by (simp add: loadCommandLocalizationsFrom_def Let_def load_command_files_skip)

lemma group_failure_thrown:
  assumes "glob_sync env (path_resolve env dir @ ''/**/commandgroups.lang.json'') = filePath # others"
    and "require_groups env filePath = Inl stack"
  shows "loadGroupLocalizationsFrom env (Some l) dir =
           Inl (Error (''Failed to load group localizations from '' @ [CHR 0x27] @ filePath @ '':'' @
                       [LF] @ stack))"
  using assms by (simp add: loadGroupLocalizationsFrom_def)

lemma loadGroupLocalizationsFrom_instance:
  "loadGroupLocalizationsFrom env (Some l) dir = Inr inst \<Longrightarrow> \<exists>l'. inst = Some l'"
  by (auto simp: loadGroupLocalizationsFrom_def split: list.splits sum.splits)

lemma loadCommandLocalizationsFrom_returns:
  "\<exists>l'. loadCommandLocalizationsFrom env (Some l) dir = Inr (Some l')"
  by (simp add: loadCommandLocalizationsFrom_def Let_def)

text \<open>\<open>loadCommandLocalizations\<close> throws what either of its two calls of
  \<open>loadGroupLocalizationsFrom\<close> throws.\<close>

lemma own_group_failure_aborts:
  assumes "glob_sync env (path_resolve env (en_us_dir env) @ ''/**/commandgroups.lang.json'') =
             filePath # others"
    and "require_groups env filePath = Inl stack"
  shows "loadCommandLocalizations env (Some l) =
           Inl (Error (''Failed to load group localizations from '' @ [CHR 0x27] @ filePath @ '':'' @
                       [LF] @ stack))"
  using group_failure_thrown [OF assms, of l] by (simp add: loadCommandLocalizations_def)

lemma client_group_failure_aborts:
  assumes "loadGroupLocalizationsFrom env (Some l) (en_us_dir env) = Inr inst1"
    and "commandsDir (p_client l) = Some (c # cs)"
    and "glob_sync env (path_resolve env (c # cs) @ ''/**/commandgroups.lang.json'') = filePath # others"
    and "require_groups env filePath = Inl stack"
  shows "loadCommandLocalizations env (Some l) =
           Inl (Error (''Failed to load group localizations from '' @ [CHR 0x27] @ filePath @ '':'' @
                       [LF] @ stack))"
proof -
  from assms(1) obtain l1 where l1: "inst1 = Some l1"
    using loadGroupLocalizationsFrom_instance by blast
  obtain l2 where l2: "loadCommandLocalizationsFrom env (Some l1) (c # cs) = Inr (Some l2)"
    using loadCommandLocalizationsFrom_returns by blast
  have "loadGroupLocalizationsFrom env (Some l2) (c # cs) =
           Inl (Error (''Failed to load group localizations from '' @ [CHR 0x27] @ filePath @ '':'' @
                       [LF] @ stack))"
    using assms(3,4) by (rule group_failure_thrown)
  with assms(1,2) l1 l2 show ?thesis
    by (simp add: loadCommandLocalizations_def)
qed

text \<open>
  C8 does not hold as stated: when the file of group descriptions does not parse,
  \<open>loadGroupLocalizationsFrom\<close> throws, and so does \<open>loadCommandLocalizations\<close>, which
  calls it.
\<close>

theorem group_file_parse_failure_aborts:
  "loadGroupLocalizationsFrom demo_env (Some demo_lang) ''/bot/commands'' =
     Inl (Error (''Failed to load group localizations from '' @ [CHR 0x27] @
                 ''/bot/commands/commandgroups.lang.json:'' @ [LF] @
                 ''SyntaxError: Unexpected token } in JSON'')) \<and>
   loadCommandLocalizations demo_env (Some demo_lang) =
     Inl (Error (''Failed to load group localizations from '' @ [CHR 0x27] @
                 ''/bot/commands/commandgroups.lang.json:'' @ [LF] @
                 ''SyntaxError: Unexpected token } in JSON''))"
  by code_simp

text \<open>
  C8, as amended. In \<open>loadCommandLocalizationsFrom\<close> a discovered file that fails to
  parse is passed over: the call returns, and the store is what loading the other
  files, in their order, makes it. In \<open>loadGroupLocalizationsFrom\<close> a parse failure of
  the file of group descriptions is thrown on as the error
  \<open>Failed to load group localizations from\<close> with the path and the stack. The same
  error leaves \<open>loadCommandLocalizations\<close> when the file that fails is the one shipped
  with the framework, and when the shipped one loads and the file that fails is the one
  of the client's \<open>commandsDir\<close>.
\<close>

theorem helptext_parse_failure_skipped_group_failure_thrown:
  "(glob_sync env (path_resolve env dir @ ''/**/*.lang.json'') = pre @ f # post \<and>
    require_commands env f = Inl err \<longrightarrow>
      loadCommandLocalizationsFrom env (Some l) dir =
        Inr (Some (postLoad (l\<lparr>p_commandInfo := load_command_files env (pre @ post) (p_commandInfo l)\<rparr>)))) \<and>
   (glob_sync env (path_resolve env gdir @ ''/**/commandgroups.lang.json'') = filePath # others \<and>
    require_groups env filePath = Inl stack \<longrightarrow>
      loadGroupLocalizationsFrom env (Some l) gdir =
        Inl (Error (''Failed to load group localizations from '' @ [CHR 0x27] @ filePath @ '':'' @
                    [LF] @ stack))) \<and>
   (glob_sync env (path_resolve env (en_us_dir env) @ ''/**/commandgroups.lang.json'') =
      ownPath # ownOthers \<and>
    require_groups env ownPath = Inl ownStack \<longrightarrow>
      loadCommandLocalizations env (Some l) =
        Inl (Error (''Failed to load group localizations from '' @ [CHR 0x27] @ ownPath @ '':'' @
                    [LF] @ ownStack))) \<and>
   (loadGroupLocalizationsFrom env (Some l) (en_us_dir env) = Inr inst1 \<and>
    commandsDir (p_client l) = Some (c # cs) \<and>
    glob_sync env (path_resolve env (c # cs) @ ''/**/commandgroups.lang.json'') =
      clientPath # clientOthers \<and>
    require_groups env clientPath = Inl clientStack \<longrightarrow>
      loadCommandLocalizations env (Some l) =
        Inl (Error (''Failed to load group localizations from '' @ [CHR 0x27] @ clientPath @ '':'' @
                    [LF] @ clientStack)))"
proof (intro conjI impI)
  assume "glob_sync env (path_resolve env dir @ ''/**/*.lang.json'') = pre @ f # post \<and>
    require_commands env f = Inl err"
  then show "loadCommandLocalizationsFrom env (Some l) dir =
        Inr (Some (postLoad (l\<lparr>p_commandInfo := load_command_files env (pre @ post) (p_commandInfo l)\<rparr>)))"
    by (elim conjE) (rule helptext_failure_skipped)
next
  assume "glob_sync env (path_resolve env gdir @ ''/**/commandgroups.lang.json'') = filePath # others \<and>
    require_groups env filePath = Inl stack"
  then show "loadGroupLocalizationsFrom env (Some l) gdir =
        Inl (Error (''Failed to load group localizations from '' @ [CHR 0x27] @ filePath @ '':'' @
                    [LF] @ stack))"
    by (elim conjE) (rule group_failure_thrown)
next
  assume "glob_sync env (path_resolve env (en_us_dir env) @ ''/**/commandgroups.lang.json'') =
      ownPath # ownOthers \<and>
    require_groups env ownPath = Inl ownStack"
  then show "loadCommandLocalizations env (Some l) =
        Inl (Error (''Failed to load group localizations from '' @ [CHR 0x27] @ ownPath @ '':'' @
                    [LF] @ ownStack))"
    by (elim conjE) (rule own_group_failure_aborts)
next
  assume "loadGroupLocalizationsFrom env (Some l) (en_us_dir env) = Inr inst1 \<and>
    commandsDir (p_client l) = Some (c # cs) \<and>
    glob_sync env (path_resolve env (c # cs) @ ''/**/commandgroups.lang.json'') =
      clientPath # clientOthers \<and>
    require_groups env clientPath = Inl clientStack"
  then show "loadCommandLocalizations env (Some l) =
        Inl (Error (''Failed to load group localizations from '' @ [CHR 0x27] @ clientPath @ '':'' @
                    [LF] @ clientStack))"
    by (elim conjE) (rule client_group_failure_aborts)
qed

theorem helptext_parse_failure_skipped_group_failure_thrown_witness:
  "map_option p_commandInfo
     (projr (loadCommandLocalizationsFrom demo_env (Some demo_lang) ''/bot/commands'')) =
     Some [(''ping'', [(''de'', \<lparr>desc = Some ''Pong zurueck'', info = Some [], usage = None\<rparr>),
                      (''fr'', \<lparr>desc = Some ''Renvoie pong'', info = None, usage = None\<rparr>)]),
           (''help'', [(''fr'', \<lparr>desc = Some ''Aide'', info = None, usage = Some ''<prefix>aide''\<rparr>)])] \<and>
   loadGroupLocalizationsFrom demo_env (Some demo_lang) ''/bot/commands'' =
     Inl (Error (''Failed to load group localizations from '' @ [CHR 0x27] @
                 ''/bot/commands/commandgroups.lang.json:'' @ [LF] @
                 ''SyntaxError: Unexpected token } in JSON'')) \<and>
   loadCommandLocalizations (demo_env\<lparr>en_us_dir := ''/bot/commands''\<rparr>) (Some demo_lang) =
     Inl (Error (''Failed to load group localizations from '' @ [CHR 0x27] @
                 ''/bot/commands/commandgroups.lang.json:'' @ [LF] @
                 ''SyntaxError: Unexpected token } in JSON'')) \<and>
   loadCommandLocalizations demo_env (Some demo_lang) =
     Inl (Error (''Failed to load group localizations from '' @ [CHR 0x27] @
                 ''/bot/commands/commandgroups.lang.json:'' @ [LF] @
                 ''SyntaxError: Unexpected token } in JSON''))"
proof -
  let ?own = "demo_env\<lparr>en_us_dir := ''/bot/commands''\<rparr>"
  have a: "glob_sync demo_env (path_resolve demo_env ''/bot/commands'' @ ''/**/*.lang.json'') =
           [''/bot/commands/ping.lang.json''] @ ''/bot/commands/broken.lang.json'' #
           [''/bot/commands/commandgroups.lang.json'', ''/bot/commands/help.lang.json''] \<and>
           require_commands demo_env ''/bot/commands/broken.lang.json'' =
           Inl ''SyntaxError: Unexpected token } in JSON''"
    by code_simp
  have b: "glob_sync demo_env (path_resolve demo_env ''/bot/commands'' @ ''/**/commandgroups.lang.json'') =
           ''/bot/commands/commandgroups.lang.json'' # [] \<and>
           require_groups demo_env ''/bot/commands/commandgroups.lang.json'' =
           Inl ''SyntaxError: Unexpected token } in JSON''"
    by code_simp
  have c: "glob_sync ?own (path_resolve ?own (en_us_dir ?own) @ ''/**/commandgroups.lang.json'') =
           ''/bot/commands/commandgroups.lang.json'' # [] \<and>
           require_groups ?own ''/bot/commands/commandgroups.lang.json'' =
           Inl ''SyntaxError: Unexpected token } in JSON''"
    by code_simp
  have d: "loadGroupLocalizationsFrom demo_env (Some demo_lang) (en_us_dir demo_env) =
             Inr (Some demo_lang) \<and>
           commandsDir (p_client demo_lang) = Some (CHR ''/'' # ''bot/commands'') \<and>
           glob_sync demo_env (path_resolve demo_env (CHR ''/'' # ''bot/commands'') @
             ''/**/commandgroups.lang.json'') = ''/bot/commands/commandgroups.lang.json'' # [] \<and>
           require_groups demo_env ''/bot/commands/commandgroups.lang.json'' =
           Inl ''SyntaxError: Unexpected token } in JSON''"
    by code_simp
  have e: "p_commandInfo (postLoad (demo_lang\<lparr>p_commandInfo :=
             load_command_files demo_env
               ([''/bot/commands/ping.lang.json''] @
                [''/bot/commands/commandgroups.lang.json'', ''/bot/commands/help.lang.json''])
               (p_commandInfo demo_lang)\<rparr>)) =
           [(''ping'', [(''de'', \<lparr>desc = Some ''Pong zurueck'', info = Some [], usage = None\<rparr>),
                       (''fr'', \<lparr>desc = Some ''Renvoie pong'', info = None, usage = None\<rparr>)]),
            (''help'', [(''fr'', \<lparr>desc = Some ''Aide'', info = None, usage = Some ''<prefix>aide''\<rparr>)])]"
    by code_simp
  note w = helptext_parse_failure_skipped_group_failure_thrown [where l = demo_lang]
  have r1: "map_option p_commandInfo
     (projr (loadCommandLocalizationsFrom demo_env (Some demo_lang) ''/bot/commands'')) =
     Some [(''ping'', [(''de'', \<lparr>desc = Some ''Pong zurueck'', info = Some [], usage = None\<rparr>),
                      (''fr'', \<lparr>desc = Some ''Renvoie pong'', info = None, usage = None\<rparr>)]),
           (''help'', [(''fr'', \<lparr>desc = Some ''Aide'', info = None, usage = Some ''<prefix>aide''\<rparr>)])]"
    using w [where env = demo_env, THEN conjunct1, rule_format, OF a] e by simp
  have r2: "loadGroupLocalizationsFrom demo_env (Some demo_lang) ''/bot/commands'' =
     Inl (Error (''Failed to load group localizations from '' @ [CHR 0x27] @
                 ''/bot/commands/commandgroups.lang.json:'' @ [LF] @
                 ''SyntaxError: Unexpected token } in JSON''))"
    using w [where env = demo_env, THEN conjunct2, THEN conjunct1, rule_format, OF b] by simp
  have r3: "loadCommandLocalizations ?own (Some demo_lang) =
     Inl (Error (''Failed to load group localizations from '' @ [CHR 0x27] @
                 ''/bot/commands/commandgroups.lang.json:'' @ [LF] @
                 ''SyntaxError: Unexpected token } in JSON''))"
    using w [where env = ?own, THEN conjunct2, THEN conjunct2, THEN conjunct1, rule_format, OF c]
    by simp
  have r4: "loadCommandLocalizations demo_env (Some demo_lang) =
     Inl (Error (''Failed to load group localizations from '' @ [CHR 0x27] @
                 ''/bot/commands/commandgroups.lang.json:'' @ [LF] @
                 ''SyntaxError: Unexpected token } in JSON''))"
    using w [where env = demo_env, THEN conjunct2, THEN conjunct2, THEN conjunct2, rule_format, OF d]
    by simp
  from r1 r2 r3 r4 show ?thesis
    by (intro conjI)
qed

end
